theory Spec2Isabelle
  imports Main "HOL-Library.AList"
begin

section \<open>The import analyzer of ember-auto-import (ts/analyzer.ts)\<close>

text \<open>
  The analyzer keeps, for every file of a tree, the module imports found in it, and a
  memoized flattening of all of them. This theory embeds \<^verbatim>\<open>analyzer.ts\<close>: the
  Import records, the two extractors (one over the Babel AST, one over the swc AST), the
  per-file store with its cache, parser setup and the build loop.

  What lies outside \<^verbatim>\<open>analyzer.ts\<close> is a parameter of the model:
  \<^item> the two parsers (\<^verbatim>\<open>parseSync\<close> of @babel/core and of @swc/core, already applied
    to the package's parser options), \<^verbatim>\<open>extname\<close> and \<^verbatim>\<open>readFileSync\<close> are the fields of
    the record \<open>libs\<close>;
  \<^item> the tree walk of \<^verbatim>\<open>@babel/traverse\<close> and of swc's \<^verbatim>\<open>Visitor\<close> is not modelled: a
    parsed \<open>File\<close> or \<open>Program\<close> carries the nodes that the library's walk reaches, in
    the order in which it reaches them; \<open>babelVisit\<close> and \<open>swcVisit\<close> say which function
    of the analyzer the library calls on a node of each type;
  \<^item> the patch of a build (\<^verbatim>\<open>getPatchset\<close>, computed by fs-tree-diff) is an argument of
    \<open>build\<close>, and the mirroring of files into the output directory is left out.
\<close>

subsection \<open>Errors\<close>

text \<open>A thrown JavaScript error, with the two properties the code reads or sets.\<close>

datatype js_error = JsError (err_name: string) (err_message: string)

subsection \<open>The package descriptor and Import records\<close>

datatype tree_type =
  App | Addon | AddonTemplates | AddonTestSupport | Styles | Templates | Test

text \<open>The fields of \<^verbatim>\<open>Package\<close> that the analyzer reads.\<close>

record package =
  name :: string
  useSwcParser :: bool
  babelMajorVersion :: nat
  fileExtensions :: "string list"

text \<open>
  \<^verbatim>\<open>Import = LiteralImport | TemplateImport\<close> is an untagged union of object types: the
  code tells the variants apart by \<^verbatim>\<open>'specifier' in m\<close>. The record has every property
  of both, and a property that an object literal of the code does not write is \<open>None\<close>.
\<close>

record Import =
  isDynamic :: bool
  specifier :: "string option"
  cookedQuasis :: "string list option"
  expressionNameHints :: "string option list option"
  path :: string
  package :: package
  treeType :: "tree_type option"

subsection \<open>The two syntax trees\<close>

text \<open>
  A template element with its cooked text (\<^verbatim>\<open>value.cooked\<close> in Babel, \<^verbatim>\<open>cooked.value\<close>
  in swc).
\<close>

datatype template_element = TemplateElement (cooked: string)

text \<open>
  Babel nodes. \<open>BIdentifier n b\<close> is an identifier named \<open>n\<close>; \<open>b\<close> is what Babel's scope
  analysis knows of its binding: \<open>Some (source, imported)\<close> when it is bound by an import
  specifier, which is what \<^verbatim>\<open>referencesImport(source, imported)\<close> tests. \<open>BImport\<close> is
  the callee of \<^verbatim>\<open>import(...)\<close>. \<open>BOther t\<close> is a node of any other type \<open>t\<close>.
\<close>

datatype babel_node =
    BStringLiteral string
  | BTemplateLiteral "template_element list" "babel_node list"
  | BIdentifier string "(string \<times> string) option"
  | BImport
  | BCallExpression babel_node "babel_node list"
  | BImportDeclaration string
  | BExportNamedDeclaration "string option"
  | BOther string

text \<open>
  swc nodes. The arguments of a call are \<^verbatim>\<open>{spread, expression}\<close> pairs in swc; the list
  holds their expressions. \<open>SOther t\<close> is a node of any other type \<open>t\<close>: none of them is
  a call, and none has the string \<^verbatim>\<open>import\<close> as its \<^verbatim>\<open>value\<close>.
\<close>

datatype swc_node =
    SStringLiteral string
  | STemplateLiteral "template_element list" "swc_node list"
  | SIdentifier string
  | SMemberExpression swc_node swc_node
  | SCallExpression swc_node "swc_node list"
  | SImportDeclaration string
  | SExportNamedDeclaration "string option"
  | SOther string

datatype ast = File "babel_node list" | Program "swc_node list"

subsection \<open>The analyzer's state\<close>

text \<open>
  The fields of the class \<^verbatim>\<open>Analyzer\<close>. \<open>paths\<close> is a JavaScript \<^verbatim>\<open>Map\<close>, which
  iterates in insertion order: an association list with \<open>AList.update\<close> (in place when the
  key is there, at the end otherwise), \<open>AList.delete\<close> and \<open>map_of\<close>. \<open>modules\<close> is the
  memoized flattening, \<open>None\<close> for \<^verbatim>\<open>null\<close>. The constructor's \<^verbatim>\<open>treeType\<close> is
  \<open>ownTreeType\<close> here.
\<close>

record analyzer =
  modules :: "Import list option"
  paths :: "(string \<times> Import list) list"
  parse :: "(string \<Rightarrow> js_error + ast) option"
  pack :: package
  ownTreeType :: "tree_type option"

definition newAnalyzer :: "package \<Rightarrow> tree_type option \<Rightarrow> analyzer" where
  "newAnalyzer pk tt =
     \<lparr>modules = Some [], paths = [], parse = None, pack = pk, ownTreeType = tt\<rparr>"

record libs =
  swcParseSync :: "string \<Rightarrow> js_error + swc_node list"
  babelParseSync :: "string \<Rightarrow> js_error + babel_node list"
  extname :: "string \<Rightarrow> string"
  readFileSync :: "string \<Rightarrow> string"

subsection \<open>Parser setup\<close>

definition digit :: "nat \<Rightarrow> char" where
  "digit d = ''0123456789'' ! d"

text \<open>The decimal digits of a number, as a template string prints it.\<close>

fun numberToString :: "nat \<Rightarrow> string" where
  "numberToString n =
     (if n < 10 then [digit n] else numberToString (n div 10) @ [digit (n mod 10)])"

declare numberToString.simps [simp del]

definition swcParser :: "libs \<Rightarrow> string \<Rightarrow> js_error + ast" where
  "swcParser l source = map_sum id Program (swcParseSync l source)"

definition babel7Parser :: "libs \<Rightarrow> string \<Rightarrow> js_error + ast" where
  "babel7Parser l source = map_sum id File (babelParseSync l source)"

definition setupError :: "package \<Rightarrow> js_error" where
  "setupError pk =
     JsError ''Error''
       (''don't know how to setup a parser for Babel version ''
          @ numberToString (babelMajorVersion pk) @ '' (used by '' @ name pk @ '')'')"

definition setupParser :: "libs \<Rightarrow> analyzer \<Rightarrow> js_error option \<times> analyzer" where
  "setupParser l a =
     (if parse a \<noteq> None then (None, a)
      else if useSwcParser (pack a) then (None, a\<lparr>parse := Some (swcParser l)\<rparr>)
      else if babelMajorVersion (pack a) = 7 then (None, a\<lparr>parse := Some (babel7Parser l)\<rparr>)
      else (Some (setupError (pack a)), a))"

subsection \<open>The aggregate view\<close>

definition getImports :: "analyzer \<Rightarrow> Import list \<times> analyzer" where
  "getImports a =
     (case modules a of
        None \<Rightarrow> (let m = concat (map snd (paths a)) in (m, a\<lparr>modules := Some m\<rparr>))
      | Some m \<Rightarrow> (m, a))"

subsection \<open>Extraction\<close>

definition literalImport :: "analyzer \<Rightarrow> string \<Rightarrow> bool \<Rightarrow> string \<Rightarrow> Import" where
  "literalImport a relativePath dyn spec =
     \<lparr>isDynamic = dyn, specifier = Some spec, cookedQuasis = None,
      expressionNameHints = None, path = relativePath, package = pack a,
      treeType = ownTreeType a\<rparr>"

definition templateImport ::
  "analyzer \<Rightarrow> string \<Rightarrow> bool \<Rightarrow> string list \<Rightarrow> string option list \<Rightarrow> Import" where
  "templateImport a relativePath dyn quasis hints =
     \<lparr>isDynamic = dyn, specifier = None, cookedQuasis = Some quasis,
      expressionNameHints = Some hints, path = relativePath, package = pack a,
      treeType = ownTreeType a\<rparr>"

definition usageError :: js_error where
  "usageError =
     JsError ''Error''
       ''import() is only allowed to contain string literals or template string literals''"

text \<open>
  Reading a property of \<^verbatim>\<open>undefined\<close> (here: of \<^verbatim>\<open>args[0]\<close> when there is no argument)
  throws a TypeError; its message is the engine's.
\<close>

definition typeError :: js_error where
  "typeError = JsError ''TypeError'' ''Cannot read properties of undefined''"

fun inferNameHint :: "babel_node \<Rightarrow> string option" where
  "inferNameHint (BIdentifier n b) = Some n"
| "inferNameHint _ = None"

fun swcInferNameHint :: "swc_node \<Rightarrow> string option" where
  "swcInferNameHint (SIdentifier v) = Some v"
| "swcInferNameHint _ = None"

fun processImportCallExpression ::
  "analyzer \<Rightarrow> string \<Rightarrow> babel_node list \<Rightarrow> bool \<Rightarrow> js_error + Import" where
  "processImportCallExpression a relativePath [] dyn = Inl typeError"
| "processImportCallExpression a relativePath (BStringLiteral v # rest) dyn =
     Inr (literalImport a relativePath dyn v)"
| "processImportCallExpression a relativePath (BTemplateLiteral quasis expressions # rest) dyn =
     (if length quasis = 1
      then Inr (literalImport a relativePath dyn (cooked (quasis ! 0)))
      else Inr (templateImport a relativePath dyn
                  (map cooked quasis) (map inferNameHint expressions)))"
| "processImportCallExpression a relativePath (argument # rest) dyn = Inl usageError"

text \<open>\<^verbatim>\<open>callee.referencesImport('@embroider/macros', 'importSync')\<close>\<close>

fun referencesImportSync :: "babel_node \<Rightarrow> bool" where
  "referencesImportSync (BIdentifier n b) = (b = Some (''@embroider/macros'', ''importSync''))"
| "referencesImportSync _ = False"

text \<open>
  What the three visitor functions handed to \<^verbatim>\<open>traverse\<close> push for one node (or throw).
\<close>

fun babelVisit :: "analyzer \<Rightarrow> string \<Rightarrow> babel_node \<Rightarrow> js_error + Import list" where
  "babelVisit a relativePath (BCallExpression callee args) =
     (if callee = BImport
      then map_sum id (\<lambda>i. [i]) (processImportCallExpression a relativePath args True)
      else if referencesImportSync callee
      then map_sum id (\<lambda>i. [i]) (processImportCallExpression a relativePath args False)
      else Inr [])"
| "babelVisit a relativePath (BImportDeclaration source) =
     Inr [literalImport a relativePath False source]"
| "babelVisit a relativePath (BExportNamedDeclaration source) =
     (case source of
        Some s \<Rightarrow> Inr [literalImport a relativePath False s]
      | None \<Rightarrow> Inr [])"
| "babelVisit a relativePath _ = Inr []"

text \<open>The properties \<^verbatim>\<open>value\<close> and \<^verbatim>\<open>callee\<close> of an swc node, \<open>None\<close> when it has none.\<close>

fun swcValue :: "swc_node \<Rightarrow> string option" where
  "swcValue (SIdentifier v) = Some v"
| "swcValue (SStringLiteral v) = Some v"
| "swcValue _ = None"

fun swcCallee :: "swc_node \<Rightarrow> swc_node option" where
  "swcCallee (SCallExpression c args) = Some c"
| "swcCallee _ = None"

fun swcArguments :: "swc_node \<Rightarrow> swc_node list option" where
  "swcArguments (SCallExpression c args) = Some args"
| "swcArguments _ = None"

text \<open>
  The local \<^verbatim>\<open>callee\<close> of \<^verbatim>\<open>visitCallExpression\<close>: the call whose argument is read, when
  the visited call \<open>e\<close> is \<^verbatim>\<open>import(...)\<close> itself or a method call on it.
\<close>

fun swcImportCall :: "swc_node \<Rightarrow> swc_node option" where
  "swcImportCall (SCallExpression (SMemberExpression obj prop) args) =
     (if (case swcCallee obj of Some c \<Rightarrow> swcValue c = Some ''import'' | None \<Rightarrow> False)
      then Some obj else None)"
| "swcImportCall (SCallExpression (SIdentifier v) args) =
     (if v = ''import'' then Some (SCallExpression (SIdentifier v) args) else None)"
| "swcImportCall _ = None"

fun swcProcessArgument ::
  "analyzer \<Rightarrow> string \<Rightarrow> swc_node list option \<Rightarrow> js_error + Import list" where
  "swcProcessArgument a relativePath None = Inl typeError"
| "swcProcessArgument a relativePath (Some []) = Inl typeError"
| "swcProcessArgument a relativePath (Some (SStringLiteral v # rest)) =
     Inr [literalImport a relativePath True v]"
| "swcProcessArgument a relativePath (Some (STemplateLiteral quasis expressions # rest)) =
     (if length quasis = 1
      then Inr [literalImport a relativePath True (cooked (quasis ! 0))]
      else Inr [templateImport a relativePath True
                  (map cooked quasis) (map swcInferNameHint expressions)])"
| "swcProcessArgument a relativePath (Some (argument # rest)) = Inl usageError"

text \<open>
  The three methods of the class \<^verbatim>\<open>ImportAnalyzer\<close>: what each pushes for the node it is
  called with (or throws). The declarations are given by their \<^verbatim>\<open>source\<close>.
\<close>

fun visitCallExpression :: "analyzer \<Rightarrow> string \<Rightarrow> swc_node \<Rightarrow> js_error + Import list" where
  "visitCallExpression a relativePath e =
     (case swcImportCall e of
        Some callee \<Rightarrow> swcProcessArgument a relativePath (swcArguments callee)
      | None \<Rightarrow> Inr [])"

fun visitImportDeclaration :: "analyzer \<Rightarrow> string \<Rightarrow> string \<Rightarrow> js_error + Import list" where
  "visitImportDeclaration a relativePath source =
     Inr [literalImport a relativePath False source]"

fun visitExportNamedDeclaration ::
  "analyzer \<Rightarrow> string \<Rightarrow> string option \<Rightarrow> js_error + Import list" where
  "visitExportNamedDeclaration a relativePath source =
     (case source of
        Some s \<Rightarrow> Inr [literalImport a relativePath False s]
      | None \<Rightarrow> Inr [])"

text \<open>
  What swc's \<^verbatim>\<open>Visitor\<close> runs on a node it reaches. It calls \<^verbatim>\<open>visitCallExpression\<close> on
  a call and \<^verbatim>\<open>visitImportDeclaration\<close> on an import declaration, which are the methods
  of \<^verbatim>\<open>ImportAnalyzer\<close>. On a named export it calls the method that the library spells
  \<^verbatim>\<open>visitExportNamedDeclration\<close>; \<^verbatim>\<open>ImportAnalyzer\<close> has no method of that name, so the
  library's own runs, which pushes nothing, and \<^verbatim>\<open>visitExportNamedDeclaration\<close> of
  \<^verbatim>\<open>ImportAnalyzer\<close> is never called.
\<close>

fun swcVisit :: "analyzer \<Rightarrow> string \<Rightarrow> swc_node \<Rightarrow> js_error + Import list" where
  "swcVisit a relativePath (SCallExpression c args) =
     visitCallExpression a relativePath (SCallExpression c args)"
| "swcVisit a relativePath (SImportDeclaration source) =
     visitImportDeclaration a relativePath source"
| "swcVisit a relativePath (SExportNamedDeclaration source) = Inr []"
| "swcVisit a relativePath _ = Inr []"

text \<open>
  The walk: the visitor runs on each node in turn and pushes onto the local array
  \<^verbatim>\<open>imports\<close>; the first throw ends it.
\<close>

fun visitAll ::
  "('n \<Rightarrow> js_error + Import list) \<Rightarrow> 'n list \<Rightarrow> Import list \<Rightarrow> js_error + Import list" where
  "visitAll visit [] imports = Inr imports"
| "visitAll visit (n # ns) imports =
     (case visit n of
        Inl err \<Rightarrow> Inl err
      | Inr pushed \<Rightarrow> visitAll visit ns (imports @ pushed))"

text \<open>
  \<^verbatim>\<open>parseImports\<close>. Calling \<^verbatim>\<open>this.parse\<close> while it is undefined throws a TypeError
  inside the \<^verbatim>\<open>try\<close>, which is rethrown as any error not named SyntaxError is. A tree of
  the other parser than the one \<^verbatim>\<open>useSwcParser\<close> selects cannot come out of
  \<open>setupParser\<close>; the model makes it a TypeError.
\<close>

definition parseImports :: "analyzer \<Rightarrow> string \<Rightarrow> string \<Rightarrow> js_error + Import list" where
  "parseImports a relativePath source =
     (case (case parse a of
              None \<Rightarrow> Inl typeError
            | Some parseFn \<Rightarrow> parseFn source) of
        Inl err \<Rightarrow> (if err_name err \<noteq> ''SyntaxError'' then Inl err else Inr [])
      | Inr tree \<Rightarrow>
          (if useSwcParser (pack a)
           then (case tree of
                   Program ns \<Rightarrow> visitAll (swcVisit a relativePath) ns []
                 | File ns \<Rightarrow> Inl typeError)
           else (case tree of
                   File ns \<Rightarrow> visitAll (babelVisit a relativePath) ns []
                 | Program ns \<Rightarrow> Inl typeError)))"

subsection \<open>The store\<close>

definition removeImports :: "analyzer \<Rightarrow> string \<Rightarrow> analyzer" where
  "removeImports a relativePath =
     (case map_of (paths a) relativePath of
        None \<Rightarrow> a
      | Some imports \<Rightarrow>
          (if length imports > 0 then a\<lparr>modules := None\<rparr> else a)
            \<lparr>paths := AList.delete relativePath (paths a)\<rparr>)"

text \<open>
  \<^verbatim>\<open>isEqual\<close> of lodash is deep structural equality: equality of the stored value
  (\<^verbatim>\<open>undefined\<close> when the path has no entry) and the new list.
\<close>

definition updateImports :: "analyzer \<Rightarrow> string \<Rightarrow> string \<Rightarrow> js_error option \<times> analyzer" where
  "updateImports a relativePath source =
     (case parseImports a relativePath source of
        Inl err \<Rightarrow> (Some err, a)
      | Inr newImports \<Rightarrow>
          (if map_of (paths a) relativePath \<noteq> Some newImports
           then (None, a\<lparr>paths := AList.update relativePath newImports (paths a),
                          modules := None\<rparr>)
           else (None, a)))"

subsection \<open>The build\<close>

text \<open>
  The operations of a patch and what \<^verbatim>\<open>build\<close> does to the analyzer for each. The input
  directory is fixed, so that \<open>readFileSync\<close> is applied to the relative path; the calls
  that change the output directory (\<^verbatim>\<open>unlinkSync\<close>, \<^verbatim>\<open>rmdirSync\<close>, \<^verbatim>\<open>mkdirSync\<close>,
  \<^verbatim>\<open>removeSync\<close>, \<^verbatim>\<open>symlinkOrCopy.sync\<close>) do not touch the analyzer and are left out.
\<close>

datatype operation = Unlink | Rmdir | Mkdir | Change | Create

definition matchesExtension :: "libs \<Rightarrow> analyzer \<Rightarrow> string \<Rightarrow> bool" where
  "matchesExtension l a p = (drop 1 (extname l p) \<in> set (fileExtensions (pack a)))"

fun applyOperation ::
  "libs \<Rightarrow> analyzer \<Rightarrow> operation \<times> string \<Rightarrow> js_error option \<times> analyzer" where
  "applyOperation l a (Unlink, relativePath) =
     (if matchesExtension l a relativePath
      then (None, removeImports a relativePath) else (None, a))"
| "applyOperation l a (Rmdir, relativePath) = (None, a)"
| "applyOperation l a (Mkdir, relativePath) = (None, a)"
| "applyOperation l a (Change, relativePath) =
     (if matchesExtension l a relativePath
      then updateImports a relativePath (readFileSync l relativePath) else (None, a))"
| "applyOperation l a (Create, relativePath) =
     (if matchesExtension l a relativePath
      then updateImports a relativePath (readFileSync l relativePath) else (None, a))"

text \<open>\<^verbatim>\<open>forEach\<close> over the patch: a throw ends the loop and the build.\<close>

fun applyPatch ::
  "libs \<Rightarrow> analyzer \<Rightarrow> (operation \<times> string) list \<Rightarrow> js_error option \<times> analyzer" where
  "applyPatch l a [] = (None, a)"
| "applyPatch l a (entry # patch) =
     (case applyOperation l a entry of
        (Some err, a') \<Rightarrow> (Some err, a')
      | (None, a') \<Rightarrow> applyPatch l a' patch)"

definition build ::
  "libs \<Rightarrow> analyzer \<Rightarrow> (operation \<times> string) list \<Rightarrow> js_error option \<times> analyzer" where
  "build l a patch =
     (case setupParser l a of
        (Some err, a') \<Rightarrow> (Some err, a')
      | (None, a') \<Rightarrow> applyPatch l a' patch)"

subsection \<open>Shapes of arguments and of trees\<close>

text \<open>The two argument types that the \<^verbatim>\<open>switch\<close> on \<^verbatim>\<open>argument.type\<close> accepts.\<close>

fun babelLiteralShape :: "babel_node \<Rightarrow> bool" where
  "babelLiteralShape (BStringLiteral v) = True"
| "babelLiteralShape (BTemplateLiteral quasis expressions) = True"
| "babelLiteralShape _ = False"

fun swcLiteralShape :: "swc_node \<Rightarrow> bool" where
  "swcLiteralShape (SStringLiteral v) = True"
| "swcLiteralShape (STemplateLiteral quasis expressions) = True"
| "swcLiteralShape _ = False"

text \<open>
  What a parser guarantees of a template literal: one more quasi than expressions
  (the text before, between and after the interpolations).
\<close>

fun babelWellFormed :: "babel_node \<Rightarrow> bool" where
  "babelWellFormed (BTemplateLiteral quasis expressions) =
     (length quasis = length expressions + 1 \<and> list_all babelWellFormed expressions)"
| "babelWellFormed (BCallExpression callee args) =
     (babelWellFormed callee \<and> list_all babelWellFormed args)"
| "babelWellFormed _ = True"

fun swcWellFormed :: "swc_node \<Rightarrow> bool" where
  "swcWellFormed (STemplateLiteral quasis expressions) =
     (length quasis = length expressions + 1 \<and> list_all swcWellFormed expressions)"
| "swcWellFormed (SMemberExpression obj prop) = (swcWellFormed obj \<and> swcWellFormed prop)"
| "swcWellFormed (SCallExpression callee args) =
     (swcWellFormed callee \<and> list_all swcWellFormed args)"
| "swcWellFormed _ = True"

fun astWellFormed :: "ast \<Rightarrow> bool" where
  "astWellFormed (File ns) = list_all babelWellFormed ns"
| "astWellFormed (Program ns) = list_all swcWellFormed ns"

text \<open>
  The two variants of an Import record, told apart by the properties that are present,
  with the length invariant of the template variant.
\<close>

definition importInvariant :: "Import \<Rightarrow> bool" where
  "importInvariant i =
     (case (specifier i, cookedQuasis i, expressionNameHints i) of
        (Some s, None, None) \<Rightarrow> True
      | (None, Some quasis, Some hints) \<Rightarrow> length quasis = length hints + 1
      | _ \<Rightarrow> False)"

subsection \<open>Example inputs\<close>

text \<open>
  A package, a few source texts with the nodes that the walk of each library reaches in
  them (those of the types the analyzer looks at, in order), and the analyzers that
  \<open>setupParser\<close> makes of them. The text \<^verbatim>\<open>import {\<close> is not JavaScript: Babel throws
  an error named SyntaxError on it, swc one named Error. The code reads only the name of
  a parser's error; the messages stand for the libraries' texts. The example parsers
  answer on a text they do not know as on the broken one.
\<close>

definition examplePackage :: package where
  "examplePackage =
     \<lparr>name = ''my-app'', useSwcParser = False, babelMajorVersion = 7,
      fileExtensions = [''js'', ''ts'']\<rparr>"

definition macroSource :: string where
  "macroSource = ''import { importSync } from '@embroider/macros'; importSync('lodash');''"

definition macroTemplateSource :: string where
  "macroTemplateSource =
     ''import { importSync } from '@embroider/macros'; importSync(`bar-${x}`);''"

definition templateSource :: string where
  "templateSource = ''import(`bar-${x}`);''"

definition callArgSource :: string where
  "callArgSource = ''import(someFn());''"

definition thenSource :: string where
  "thenSource = ''import(someFn()).then();''"

definition reexportSource :: string where
  "reexportSource =
     ''import Foo from 'bar'; export { a } from 'pkg'; const b = 1; export { b };''"

definition emptySource :: string where
  "emptySource = ''let x = 1;''"

definition brokenSource :: string where
  "brokenSource = ''import {''"

definition exampleBabelParse :: "string \<Rightarrow> js_error + babel_node list" where
  "exampleBabelParse source =
     (if source = macroSource
      then Inr [BImportDeclaration ''@embroider/macros'',
                BCallExpression
                  (BIdentifier ''importSync'' (Some (''@embroider/macros'', ''importSync'')))
                  [BStringLiteral ''lodash'']]
      else if source = macroTemplateSource
      then Inr [BImportDeclaration ''@embroider/macros'',
                BCallExpression
                  (BIdentifier ''importSync'' (Some (''@embroider/macros'', ''importSync'')))
                  [BTemplateLiteral [TemplateElement ''bar-'', TemplateElement []]
                     [BIdentifier ''x'' None]]]
      else if source = templateSource
      then Inr [BCallExpression BImport
                  [BTemplateLiteral [TemplateElement ''bar-'', TemplateElement []]
                     [BIdentifier ''x'' None]]]
      else if source = callArgSource
      then Inr [BCallExpression BImport
                  [BCallExpression (BIdentifier ''someFn'' None) []],
                BCallExpression (BIdentifier ''someFn'' None) []]
      else if source = thenSource
      then Inr [BCallExpression (BOther ''MemberExpression'') [],
                BCallExpression BImport
                  [BCallExpression (BIdentifier ''someFn'' None) []],
                BCallExpression (BIdentifier ''someFn'' None) []]
      else if source = reexportSource
      then Inr [BImportDeclaration ''bar'', BExportNamedDeclaration (Some ''pkg''),
                BOther ''VariableDeclaration'', BExportNamedDeclaration None]
      else if source = emptySource
      then Inr [BOther ''VariableDeclaration'']
      else Inl (JsError ''SyntaxError'' ''Unexpected token (1:8)''))"

definition exampleSwcParse :: "string \<Rightarrow> js_error + swc_node list" where
  "exampleSwcParse source =
     (if source = macroSource
      then Inr [SImportDeclaration ''@embroider/macros'',
                SCallExpression (SIdentifier ''importSync'') [SStringLiteral ''lodash'']]
      else if source = macroTemplateSource
      then Inr [SImportDeclaration ''@embroider/macros'',
                SCallExpression (SIdentifier ''importSync'')
                  [STemplateLiteral [TemplateElement ''bar-'', TemplateElement []]
                     [SIdentifier ''x'']]]
      else if source = templateSource
      then Inr [SCallExpression (SIdentifier ''import'')
                  [STemplateLiteral [TemplateElement ''bar-'', TemplateElement []]
                     [SIdentifier ''x'']]]
      else if source = callArgSource
      then Inr [SCallExpression (SIdentifier ''import'')
                  [SCallExpression (SIdentifier ''someFn'') []]]
      else if source = thenSource
      then Inr [SCallExpression
                  (SMemberExpression
                     (SCallExpression (SIdentifier ''import'')
                        [SCallExpression (SIdentifier ''someFn'') []])
                     (SIdentifier ''then''))
                  []]
      else if source = reexportSource
      then Inr [SImportDeclaration ''bar'', SExportNamedDeclaration (Some ''pkg''),
                SOther ''VariableDeclaration'', SExportNamedDeclaration None]
      else if source = emptySource
      then Inr [SOther ''VariableDeclaration'']
      else Inl (JsError ''Error'' ''Syntax Error''))"

definition exampleRead :: "string \<Rightarrow> string" where
  "exampleRead p =
     (if p = ''macro.js'' then macroSource
      else if p = ''macro-template.js'' then macroTemplateSource
      else if p = ''template.js'' then templateSource
      else if p = ''call.js'' then callArgSource
      else if p = ''then.js'' then thenSource
      else if p = ''reexport.js'' then reexportSource
      else if p = ''empty.js'' then emptySource
      else brokenSource)"

definition exampleLibs :: libs where
  "exampleLibs =
     \<lparr>swcParseSync = exampleSwcParse, babelParseSync = exampleBabelParse,
      extname = dropWhile (\<lambda>c. c \<noteq> CHR ''.''), readFileSync = exampleRead\<rparr>"

definition babelAnalyzer :: analyzer where
  "babelAnalyzer = snd (setupParser exampleLibs (newAnalyzer examplePackage (Some App)))"

definition swcAnalyzer :: analyzer where
  "swcAnalyzer =
     snd (setupParser exampleLibs
            (newAnalyzer (examplePackage\<lparr>useSwcParser := True\<rparr>) (Some App)))"

text \<open>The babel analyzer after it has stored a file and its aggregate has been read.\<close>

definition macroImports :: "Import list" where
  "macroImports =
     [literalImport babelAnalyzer ''macro.js'' False ''@embroider/macros'',
      literalImport babelAnalyzer ''macro.js'' False ''lodash'']"

definition storedAnalyzer :: analyzer where
  "storedAnalyzer =
     snd (getImports (snd (updateImports babelAnalyzer ''macro.js'' macroSource)))"

definition emptyStoredAnalyzer :: analyzer where
  "emptyStoredAnalyzer =
     snd (getImports (snd (updateImports babelAnalyzer ''empty.js'' emptySource)))"

section \<open>Properties\<close>

subsection \<open>The walk\<close>

lemma visitAll_acc:
  "visitAll v ns acc = (case visitAll v ns [] of Inl e \<Rightarrow> Inl e | Inr r \<Rightarrow> Inr (acc @ r))"
proof (induction ns arbitrary: acc)
  case Nil
  show ?case by simp
next
  case (Cons n ns)
  show ?case
  proof (cases "v n")
    case (Inl e)
    then show ?thesis by simp
  next
    case (Inr pushed)
    have step: "visitAll v (n # ns) acc' = visitAll v ns (acc' @ pushed)" for acc'
      using Inr by simp
    show ?thesis
      unfolding step
      by (subst Cons.IH [of "acc @ pushed"], subst Cons.IH [of "[] @ pushed"])
         (simp split: sum.splits)
  qed
qed

lemma visitAll_append:
  "visitAll v (xs @ ys) acc =
     (case visitAll v xs acc of Inl e \<Rightarrow> Inl e | Inr r \<Rightarrow> visitAll v ys r)"
  by (induction xs arbitrary: acc) (auto split: sum.splits)

lemmas example_defs =
  swcAnalyzer_def babelAnalyzer_def setupParser_def newAnalyzer_def examplePackage_def
  exampleLibs_def swcParser_def babel7Parser_def exampleSwcParse_def exampleBabelParse_def
  exampleRead_def macroSource_def macroTemplateSource_def templateSource_def
  callArgSource_def thenSource_def reexportSource_def emptySource_def brokenSource_def

subsection \<open>Call-form imports and the two backends\<close>

text \<open>
  Under Babel both call forms are extracted, with the \<open>isDynamic\<close> that the visitor passes;
  under swc every record of a call is dynamic, and a call of \<^verbatim>\<open>importSync\<close> pushes nothing.
\<close>

lemma processImportCallExpression_isDynamic:
  "processImportCallExpression a p args d = Inr i \<Longrightarrow> isDynamic i = d"
  by (induction a p args d rule: processImportCallExpression.induct)
     (auto simp: literalImport_def templateImport_def split: if_splits)

lemma swcProcessArgument_isDynamic:
  "swcProcessArgument a p args = Inr is \<Longrightarrow> i \<in> set is \<Longrightarrow> isDynamic i"
  by (induction a p args rule: swcProcessArgument.induct)
     (auto simp: literalImport_def templateImport_def split: if_splits)

lemma swcVisit_importSync:
  "swcVisit a p (SCallExpression (SIdentifier ''importSync'') args) = Inr []"
  by simp

text \<open>
  Claim C1 says that under both backends a call of \<^verbatim>\<open>import(...)\<close> yields a record with
  \<open>isDynamic = True\<close> and a call of \<^verbatim>\<open>importSync\<close> (imported from @embroider/macros) a
  record with \<open>isDynamic = False\<close>. On the file
  \<^verbatim>\<open>import { importSync } from '@embroider/macros'; importSync('lodash');\<close>
  the Babel extractor yields the record of the declaration and a non-dynamic record for
  \<^verbatim>\<open>lodash\<close>; the swc extractor yields the record of the declaration only.
\<close>

theorem C1_swc_skips_importSync:
  "parseImports babelAnalyzer ''macro.js'' macroSource =
     Inr [literalImport babelAnalyzer ''macro.js'' False ''@embroider/macros'',
          literalImport babelAnalyzer ''macro.js'' False ''lodash'']
   \<and> parseImports swcAnalyzer ''macro.js'' macroSource =
     Inr [literalImport swcAnalyzer ''macro.js'' False ''@embroider/macros'']"
  by (simp add: parseImports_def example_defs)

subsection \<open>Errors of the parser\<close>

lemma parseImports_parse_error:
  assumes "parse a = Some parseFn" and "parseFn source = Inl err"
  shows "parseImports a p source = (if err_name err \<noteq> ''SyntaxError'' then Inl err else Inr [])"
  using assms by (simp add: parseImports_def)

lemma updateImports_error:
  "parseImports a p source = Inl err \<Longrightarrow> updateImports a p source = (Some err, a)"
  by (simp add: updateImports_def)

lemma updateImports_ok:
  "parseImports a p source = Inr newImports \<Longrightarrow> fst (updateImports a p source) = None"
  by (simp add: updateImports_def)

text \<open>
  Claim C2: when the parse function throws an error named SyntaxError, \<open>parseImports\<close>
  returns the empty list, \<open>updateImports\<close> throws nothing and the build goes on with the
  rest of the patch; when it throws any other error, \<open>parseImports\<close> and \<open>updateImports\<close>
  throw that same error, the analyzer is unchanged, and the build ends with it.
\<close>

theorem C2_parse_failure_policy:
  assumes "parse a = Some parseFn" and "parseFn source = Inl err"
  shows "(err_name err = ''SyntaxError'' \<longrightarrow>
            parseImports a p source = Inr []
          \<and> fst (updateImports a p source) = None
          \<and> (matchesExtension l a p \<and> readFileSync l p = source \<longrightarrow>
               applyPatch l a ((Create, p) # patch)
                 = applyPatch l (snd (updateImports a p source)) patch))
       \<and> (err_name err \<noteq> ''SyntaxError'' \<longrightarrow>
            parseImports a p source = Inl err
          \<and> updateImports a p source = (Some err, a)
          \<and> (matchesExtension l a p \<and> readFileSync l p = source \<longrightarrow>
               applyPatch l a ((Create, p) # patch) = (Some err, a)))"
proof (intro conjI impI)
  assume syn: "err_name err = ''SyntaxError''"
  show pi: "parseImports a p source = Inr []"
    using parseImports_parse_error [OF assms, of p] syn by simp
  show ok: "fst (updateImports a p source) = None"
    using pi by (rule updateImports_ok)
  assume "matchesExtension l a p \<and> readFileSync l p = source"
  then show "applyPatch l a ((Create, p) # patch)
               = applyPatch l (snd (updateImports a p source)) patch"
    using ok by (cases "updateImports a p source") simp
next
  assume other: "err_name err \<noteq> ''SyntaxError''"
  show pi: "parseImports a p source = Inl err"
    using parseImports_parse_error [OF assms, of p] other by simp
  show up: "updateImports a p source = (Some err, a)"
    using pi by (rule updateImports_error)
  assume "matchesExtension l a p \<and> readFileSync l p = source"
  then show "applyPatch l a ((Create, p) # patch) = (Some err, a)"
    using up by simp
qed

theorem C2_parse_failure_policy_witness:
  "parse babelAnalyzer = Some (babel7Parser exampleLibs)
   \<and> babel7Parser exampleLibs brokenSource
       = Inl (JsError ''SyntaxError'' ''Unexpected token (1:8)'')
   \<and> matchesExtension exampleLibs babelAnalyzer ''broken.js''
   \<and> readFileSync exampleLibs ''broken.js'' = brokenSource
   \<and> parseImports babelAnalyzer ''broken.js'' brokenSource = Inr []
   \<and> fst (updateImports babelAnalyzer ''broken.js'' brokenSource) = None
   \<and> applyPatch exampleLibs babelAnalyzer [(Create, ''broken.js''), (Create, ''macro.js'')]
       = applyPatch exampleLibs (snd (updateImports babelAnalyzer ''broken.js'' brokenSource))
           [(Create, ''macro.js'')]
   \<and> parse swcAnalyzer = Some (swcParser exampleLibs)
   \<and> swcParser exampleLibs brokenSource = Inl (JsError ''Error'' ''Syntax Error'')
   \<and> matchesExtension exampleLibs swcAnalyzer ''broken.js''
   \<and> parseImports swcAnalyzer ''broken.js'' brokenSource
       = Inl (JsError ''Error'' ''Syntax Error'')
   \<and> updateImports swcAnalyzer ''broken.js'' brokenSource
       = (Some (JsError ''Error'' ''Syntax Error''), swcAnalyzer)
   \<and> applyPatch exampleLibs swcAnalyzer [(Create, ''broken.js''), (Create, ''macro.js'')]
       = (Some (JsError ''Error'' ''Syntax Error''), swcAnalyzer)"
proof -
  have pb: "parse babelAnalyzer = Some (babel7Parser exampleLibs)"
    by (simp add: example_defs)
  have sb: "babel7Parser exampleLibs brokenSource
             = Inl (JsError ''SyntaxError'' ''Unexpected token (1:8)'')"
    by (simp add: example_defs)
  have ps: "parse swcAnalyzer = Some (swcParser exampleLibs)"
    by (simp add: example_defs)
  have ss: "swcParser exampleLibs brokenSource = Inl (JsError ''Error'' ''Syntax Error'')"
    by (simp add: example_defs)
  have mb: "matchesExtension exampleLibs babelAnalyzer ''broken.js''"
    by (simp add: matchesExtension_def example_defs)
  have ms: "matchesExtension exampleLibs swcAnalyzer ''broken.js''"
    by (simp add: matchesExtension_def example_defs)
  have r: "readFileSync exampleLibs ''broken.js'' = brokenSource"
    by (simp add: example_defs)
  show ?thesis
    using C2_parse_failure_policy [OF pb sb, of "''broken.js''" exampleLibs
            "[(Create, ''macro.js'')]"]
          C2_parse_failure_policy [OF ps ss, of "''broken.js''" exampleLibs
            "[(Create, ''macro.js'')]"]
          pb sb ps ss mb ms r
    by simp
qed

subsection \<open>The store and its cache\<close>

lemma map_of_update_same: "map_of (AList.update k v al) k = Some v"
  by (simp add: update_conv')

lemma map_of_delete_same: "map_of (AList.delete k al) k = None"
  by (simp add: delete_conv')

lemma parse_macro:
  "parseImports babelAnalyzer ''macro.js'' macroSource = Inr macroImports"
  by (simp add: parseImports_def macroImports_def example_defs)

lemma parse_empty:
  "parseImports babelAnalyzer ''empty.js'' emptySource = Inr []"
  by (simp add: parseImports_def example_defs)

lemma storedAnalyzer_eq:
  "storedAnalyzer =
     babelAnalyzer\<lparr>paths := [(''macro.js'', macroImports)], modules := Some macroImports\<rparr>"
  unfolding storedAnalyzer_def updateImports_def parse_macro
  by (simp add: getImports_def) (simp add: example_defs)

lemma emptyStoredAnalyzer_eq:
  "emptyStoredAnalyzer = babelAnalyzer\<lparr>paths := [(''empty.js'', [])], modules := Some []\<rparr>"
  unfolding emptyStoredAnalyzer_def updateImports_def parse_empty
  by (simp add: getImports_def) (simp add: example_defs)

lemma macroImports_not_empty: "macroImports \<noteq> []"
  by (simp add: macroImports_def)

lemma parse_stored:
  "parseImports storedAnalyzer ''macro.js'' macroSource = Inr macroImports"
  unfolding storedAnalyzer_eq
  by (simp add: parseImports_def macroImports_def literalImport_def example_defs)

lemma parse_callArg_stored:
  "parseImports storedAnalyzer ''call.js'' callArgSource = Inl usageError"
  unfolding storedAnalyzer_eq by (simp add: parseImports_def example_defs)

lemma parse_empty_stored:
  "parseImports storedAnalyzer ''empty.js'' emptySource = Inr []"
  unfolding storedAnalyzer_eq by (simp add: parseImports_def example_defs)

text \<open>
  Claim C3: when the list that \<open>parseImports\<close> returns for a file equals the list stored
  for its path, \<open>updateImports\<close> leaves the analyzer (the entry and the memoized aggregate)
  as it is; when it differs, or the path has no entry, the entry becomes the new list and
  the aggregate becomes \<^verbatim>\<open>null\<close>.
\<close>

theorem C3_updateImports_gated:
  assumes "parseImports a p source = Inr newImports"
  shows "(map_of (paths a) p = Some newImports \<longrightarrow> updateImports a p source = (None, a))
       \<and> (map_of (paths a) p \<noteq> Some newImports \<longrightarrow>
            updateImports a p source
              = (None, a\<lparr>paths := AList.update p newImports (paths a), modules := None\<rparr>)
          \<and> map_of (paths (snd (updateImports a p source))) p = Some newImports
          \<and> modules (snd (updateImports a p source)) = None)"
  using assms by (simp add: updateImports_def map_of_update_same)

theorem C3_updateImports_gated_witness:
  "parseImports babelAnalyzer ''macro.js'' macroSource = Inr macroImports
   \<and> map_of (paths babelAnalyzer) ''macro.js'' \<noteq> Some macroImports
   \<and> updateImports babelAnalyzer ''macro.js'' macroSource
       = (None, babelAnalyzer\<lparr>paths := [(''macro.js'', macroImports)], modules := None\<rparr>)
   \<and> parseImports storedAnalyzer ''macro.js'' macroSource = Inr macroImports
   \<and> map_of (paths storedAnalyzer) ''macro.js'' = Some macroImports
   \<and> modules storedAnalyzer = Some macroImports
   \<and> updateImports storedAnalyzer ''macro.js'' macroSource = (None, storedAnalyzer)"
proof -
  have absent: "map_of (paths babelAnalyzer) ''macro.js'' \<noteq> Some macroImports"
    by (simp add: example_defs)
  have paths0: "paths babelAnalyzer = []"
    by (simp add: example_defs)
  have present: "map_of (paths storedAnalyzer) ''macro.js'' = Some macroImports"
    by (simp add: storedAnalyzer_eq)
  have cached: "modules storedAnalyzer = Some macroImports"
    by (simp add: storedAnalyzer_eq)
  show ?thesis
    using C3_updateImports_gated [OF parse_macro] C3_updateImports_gated [OF parse_stored]
          parse_macro parse_stored absent paths0 present cached
    by simp
qed

text \<open>
  Claim C4: for a path that has an entry, \<open>removeImports\<close> deletes the entry; the
  aggregate becomes \<^verbatim>\<open>null\<close> when the entry held one or more records, and is left as
  it was when the entry held none.
\<close>

theorem C4_removeImports:
  assumes "map_of (paths a) p = Some stored"
  shows "removeImports a p
           = a\<lparr>paths := AList.delete p (paths a),
               modules := (if stored = [] then modules a else None)\<rparr>
       \<and> map_of (paths (removeImports a p)) p = None
       \<and> (stored \<noteq> [] \<longrightarrow> modules (removeImports a p) = None)
       \<and> (stored = [] \<longrightarrow> modules (removeImports a p) = modules a)"
  using assms by (simp add: removeImports_def map_of_delete_same)

theorem C4_removeImports_witness:
  "map_of (paths storedAnalyzer) ''macro.js'' = Some macroImports
   \<and> macroImports \<noteq> []
   \<and> modules storedAnalyzer = Some macroImports
   \<and> removeImports storedAnalyzer ''macro.js'' = storedAnalyzer\<lparr>paths := [], modules := None\<rparr>
   \<and> map_of (paths emptyStoredAnalyzer) ''empty.js'' = Some []
   \<and> modules emptyStoredAnalyzer = Some []
   \<and> removeImports emptyStoredAnalyzer ''empty.js'' = emptyStoredAnalyzer\<lparr>paths := []\<rparr>
   \<and> modules (removeImports emptyStoredAnalyzer ''empty.js'') = Some []"
proof -
  have s1: "map_of (paths storedAnalyzer) ''macro.js'' = Some macroImports"
    by (simp add: storedAnalyzer_eq)
  have s2: "map_of (paths emptyStoredAnalyzer) ''empty.js'' = Some []"
    by (simp add: emptyStoredAnalyzer_eq)
  have d1: "AList.delete ''macro.js'' (paths storedAnalyzer) = []"
    by (simp add: storedAnalyzer_eq AList.delete_eq)
  have d2: "AList.delete ''empty.js'' (paths emptyStoredAnalyzer) = []"
    by (simp add: emptyStoredAnalyzer_eq AList.delete_eq)
  have m1: "modules storedAnalyzer = Some macroImports"
    by (simp add: storedAnalyzer_eq)
  have m2: "modules emptyStoredAnalyzer = Some []"
    by (simp add: emptyStoredAnalyzer_eq)
  show ?thesis
    using C4_removeImports [OF s1] C4_removeImports [OF s2] s1 s2 d1 d2 m1 m2
          macroImports_not_empty
    by simp
qed

text \<open>
  Claim C8 says that the aggregate is set to \<^verbatim>\<open>null\<close> exactly when an entry is created,
  replaced or deleted with a non-empty list, and that creating an entry with an empty
  list never invalidates it. The second part fails: on a fresh analyzer, whose aggregate is
  the empty list, storing a file without imports creates the entry \<open>[]\<close> and sets the
  aggregate to \<^verbatim>\<open>null\<close>.
\<close>

theorem C8_empty_entry_invalidates:
  "parseImports babelAnalyzer ''empty.js'' emptySource = Inr []
   \<and> map_of (paths babelAnalyzer) ''empty.js'' = None
   \<and> modules babelAnalyzer = Some []
   \<and> map_of (paths (snd (updateImports babelAnalyzer ''empty.js'' emptySource))) ''empty.js''
       = Some []
   \<and> modules (snd (updateImports babelAnalyzer ''empty.js'' emptySource)) = None"
  unfolding updateImports_def parse_empty
  by (simp add: parse_empty) (simp add: example_defs)

text \<open>
  Claim C8 as amended: \<open>updateImports\<close> sets the aggregate to \<^verbatim>\<open>null\<close> exactly when it
  stores an entry, that is when the path has no entry or its entry differs from the new
  list, whether or not either list is empty; an \<open>updateImports\<close> that throws leaves it;
  \<open>removeImports\<close> sets it to \<^verbatim>\<open>null\<close> exactly when it deletes an entry with one or more
  records. In every other case the aggregate stays what it was.
\<close>

theorem C8_invalidation:
  "(parseImports a p source = Inr newImports \<longrightarrow>
      modules (snd (updateImports a p source))
        = (if map_of (paths a) p = Some newImports then modules a else None))
   \<and> (parseImports a p source = Inl err \<longrightarrow>
        modules (snd (updateImports a p source)) = modules a)
   \<and> modules (removeImports a p)
       = (case map_of (paths a) p of
            None \<Rightarrow> modules a
          | Some stored \<Rightarrow> if stored = [] then modules a else None)"
  by (simp add: updateImports_def removeImports_def split: option.splits)

theorem C8_invalidation_witness:
  "parseImports storedAnalyzer ''empty.js'' emptySource = Inr []
   \<and> map_of (paths storedAnalyzer) ''empty.js'' = None
   \<and> modules storedAnalyzer = Some macroImports
   \<and> modules (snd (updateImports storedAnalyzer ''empty.js'' emptySource)) = None
   \<and> parseImports storedAnalyzer ''call.js'' callArgSource = Inl usageError
   \<and> modules (snd (updateImports storedAnalyzer ''call.js'' callArgSource)) = Some macroImports
   \<and> modules (removeImports storedAnalyzer ''macro.js'') = None
   \<and> modules (removeImports emptyStoredAnalyzer ''empty.js'') = Some []"
proof -
  have absent: "map_of (paths storedAnalyzer) ''empty.js'' = None"
    by (simp add: storedAnalyzer_eq)
  have m1: "modules storedAnalyzer = Some macroImports"
    by (simp add: storedAnalyzer_eq)
  have s1: "map_of (paths storedAnalyzer) ''macro.js'' = Some macroImports"
    by (simp add: storedAnalyzer_eq)
  have s2: "map_of (paths emptyStoredAnalyzer) ''empty.js'' = Some []"
    by (simp add: emptyStoredAnalyzer_eq)
  have m2: "modules emptyStoredAnalyzer = Some []"
    by (simp add: emptyStoredAnalyzer_eq)
  show ?thesis
    using C8_invalidation [of storedAnalyzer "''empty.js''" emptySource "[]"]
          C8_invalidation [of storedAnalyzer "''call.js''" callArgSource _ usageError]
          C8_invalidation [of storedAnalyzer "''macro.js''"]
          C8_invalidation [of emptyStoredAnalyzer "''empty.js''"]
          parse_empty_stored parse_callArg_stored absent m1 s1 s2 m2 macroImports_not_empty
    by simp
qed

subsection \<open>Parser setup\<close>

text \<open>
  Claim C10: on an analyzer that has no parse function yet, with the Babel backend
  selected and a major version other than 7, \<open>setupParser\<close> throws an error whose
  message holds the version number and the name of the package, no parse function is
  installed, and \<open>build\<close> ends with that error.
\<close>

theorem C10_unsupported_babel_version:
  assumes "parse a = None" and "\<not> useSwcParser (pack a)" and "babelMajorVersion (pack a) \<noteq> 7"
  shows "setupParser l a
           = (Some (JsError ''Error''
                (''don't know how to setup a parser for Babel version ''
                   @ numberToString (babelMajorVersion (pack a))
                   @ '' (used by '' @ name (pack a) @ '')'')), a)
       \<and> parse (snd (setupParser l a)) = None
       \<and> build l a patch = setupParser l a"
  using assms by (simp add: setupParser_def setupError_def build_def)

theorem C10_unsupported_babel_version_witness:
  "parse (newAnalyzer (examplePackage\<lparr>babelMajorVersion := 6\<rparr>) None) = None
   \<and> \<not> useSwcParser (pack (newAnalyzer (examplePackage\<lparr>babelMajorVersion := 6\<rparr>) None))
   \<and> babelMajorVersion (pack (newAnalyzer (examplePackage\<lparr>babelMajorVersion := 6\<rparr>) None)) \<noteq> 7
   \<and> setupParser exampleLibs (newAnalyzer (examplePackage\<lparr>babelMajorVersion := 6\<rparr>) None)
       = (Some (JsError ''Error''
            ''don't know how to setup a parser for Babel version 6 (used by my-app)''),
          newAnalyzer (examplePackage\<lparr>babelMajorVersion := 6\<rparr>) None)
   \<and> build exampleLibs (newAnalyzer (examplePackage\<lparr>babelMajorVersion := 6\<rparr>) None)
         [(Create, ''macro.js'')]
       = (Some (JsError ''Error''
            ''don't know how to setup a parser for Babel version 6 (used by my-app)''),
          newAnalyzer (examplePackage\<lparr>babelMajorVersion := 6\<rparr>) None)"
proof -
  have h1: "parse (newAnalyzer (examplePackage\<lparr>babelMajorVersion := 6\<rparr>) None) = None"
    by (simp add: newAnalyzer_def)
  have h2: "\<not> useSwcParser (pack (newAnalyzer (examplePackage\<lparr>babelMajorVersion := 6\<rparr>) None))"
    by (simp add: newAnalyzer_def examplePackage_def)
  have h3: "babelMajorVersion (pack (newAnalyzer (examplePackage\<lparr>babelMajorVersion := 6\<rparr>) None)) \<noteq> 7"
    by (simp add: newAnalyzer_def examplePackage_def)
  have n: "numberToString 6 = ''6''"
    by (simp add: numberToString.simps digit_def)
  have pk: "pack (newAnalyzer (examplePackage\<lparr>babelMajorVersion := 6\<rparr>) None)
              = examplePackage\<lparr>babelMajorVersion := 6\<rparr>"
    by (simp add: newAnalyzer_def)
  have nm: "name (examplePackage\<lparr>babelMajorVersion := 6\<rparr>) = ''my-app''"
    by (simp add: examplePackage_def)
  have v: "babelMajorVersion (examplePackage\<lparr>babelMajorVersion := 6\<rparr>) = 6"
    by simp
  show ?thesis
    using C10_unsupported_babel_version [OF h1 h2 h3, of exampleLibs "[(Create, ''macro.js'')]"]
          h1 h2 h3
    by (simp add: pk nm v n)
qed

subsection \<open>Extraction from one file\<close>

lemma parseImports_babel:
  assumes "parse a = Some parseFn" and "parseFn source = Inr (File ns)"
      and "\<not> useSwcParser (pack a)"
  shows "parseImports a p source = visitAll (babelVisit a p) ns []"
  using assms by (simp add: parseImports_def)

lemma parseImports_swc:
  assumes "parse a = Some parseFn" and "parseFn source = Inr (Program ns)"
      and "useSwcParser (pack a)"
  shows "parseImports a p source = visitAll (swcVisit a p) ns []"
  using assms by (simp add: parseImports_def)

lemma visitAll_throws:
  assumes "visitAll visit pre [] = Inr found" and "visit n = Inl err"
  shows "visitAll visit (pre @ n # post) [] = Inl err"
  using assms by (simp add: visitAll_append)

lemma visitAll_split:
  assumes "visitAll visit (pre @ n # post) [] = Inr found"
  shows "\<exists>before pushed after.
           visitAll visit pre [] = Inr before \<and> visit n = Inr pushed
         \<and> visitAll visit post [] = Inr after \<and> found = before @ pushed @ after"
proof -
  obtain before where b: "visitAll visit pre [] = Inr before"
    using assms by (auto simp: visitAll_append split: sum.splits)
  then have rest: "visitAll visit (n # post) before = Inr found"
    using assms by (simp add: visitAll_append)
  then obtain pushed where v: "visit n = Inr pushed"
    by (auto split: sum.splits)
  then have "visitAll visit post (before @ pushed) = Inr found"
    using rest by simp
  then obtain after where a: "visitAll visit post [] = Inr after"
      and f: "found = (before @ pushed) @ after"
    by (subst (asm) visitAll_acc) (auto split: sum.splits)
  show ?thesis using b v a f by simp
qed

lemma visitAll_member:
  assumes "visitAll visit ns acc = Inr found" and "i \<in> set found"
  shows "i \<in> set acc \<or> (\<exists>n pushed. n \<in> set ns \<and> visit n = Inr pushed \<and> i \<in> set pushed)"
  using assms
proof (induction ns arbitrary: acc)
  case Nil
  then show ?case by simp
next
  case (Cons n ns)
  then obtain pushed where v: "visit n = Inr pushed"
      and r: "visitAll visit ns (acc @ pushed) = Inr found"
    by (auto split: sum.splits)
  from Cons.IH [OF r Cons.prems(2)] v show ?case by auto
qed

subsection \<open>The argument of a call-form import\<close>

text \<open>
  Where a call is read as an import, its first argument decides the record: under Babel
  for \<^verbatim>\<open>import(...)\<close> and for \<^verbatim>\<open>importSync(...)\<close>, under swc for \<^verbatim>\<open>import(...)\<close> and for
  a method call on it.
\<close>

lemma single_quasi:
  "length quasis = length expressions + 1 \<Longrightarrow> expressions = [] \<Longrightarrow> quasis = [quasis ! 0]"
  by (cases quasis) auto

lemma inferNameHint_nth:
  "i < length expressions \<Longrightarrow>
     map inferNameHint expressions ! i
       = (case expressions ! i of BIdentifier n b \<Rightarrow> Some n | _ \<Rightarrow> None)"
  by (cases "expressions ! i") simp_all

lemma swcInferNameHint_nth:
  "i < length expressions \<Longrightarrow>
     map swcInferNameHint expressions ! i
       = (case expressions ! i of SIdentifier v \<Rightarrow> Some v | _ \<Rightarrow> None)"
  by (cases "expressions ! i") simp_all

lemma babelVisit_import:
  "babelVisit a p (BCallExpression BImport args)
     = map_sum id (\<lambda>i. [i]) (processImportCallExpression a p args True)"
  by simp

lemma babelVisit_importSync:
  "babelVisit a p
       (BCallExpression (BIdentifier n (Some (''@embroider/macros'', ''importSync''))) args)
     = map_sum id (\<lambda>i. [i]) (processImportCallExpression a p args False)"
  by simp

lemma processImportCallExpression_string:
  "processImportCallExpression a p (BStringLiteral v # rest) d
     = Inr \<lparr>isDynamic = d, specifier = Some v, cookedQuasis = None,
            expressionNameHints = None, path = p, package = pack a,
            treeType = ownTreeType a\<rparr>"
  by (simp add: literalImport_def)

lemma processImportCallExpression_plain_template:
  assumes "length quasis = length expressions + 1" and "expressions = []"
  shows "processImportCallExpression a p (BTemplateLiteral quasis expressions # rest) d
     = Inr \<lparr>isDynamic = d, specifier = Some (cooked (quasis ! 0)), cookedQuasis = None,
            expressionNameHints = None, path = p, package = pack a,
            treeType = ownTreeType a\<rparr>"
  using assms by (simp add: literalImport_def)

lemma processImportCallExpression_template:
  assumes "length quasis = length expressions + 1" and "expressions \<noteq> []"
  shows "processImportCallExpression a p (BTemplateLiteral quasis expressions # rest) d
     = Inr \<lparr>isDynamic = d, specifier = None, cookedQuasis = Some (map cooked quasis),
            expressionNameHints =
              Some (map (\<lambda>e. case e of BIdentifier n b \<Rightarrow> Some n | _ \<Rightarrow> None) expressions),
            path = p, package = pack a, treeType = ownTreeType a\<rparr>"
proof -
  have "inferNameHint = (\<lambda>e. case e of BIdentifier n b \<Rightarrow> Some n | _ \<Rightarrow> None)"
  proof
    fix e show "inferNameHint e = (case e of BIdentifier n b \<Rightarrow> Some n | _ \<Rightarrow> None)"
      by (cases e) simp_all
  qed
  then show ?thesis using assms by (simp add: templateImport_def)
qed

text \<open>Under swc a method call on \<^verbatim>\<open>import(...)\<close> is read as the import itself.\<close>

lemma swcVisit_member:
  "swcVisit a p (SCallExpression (SMemberExpression
       (SCallExpression (SIdentifier ''import'') args) memberProp) args')
     = swcVisit a p (SCallExpression (SIdentifier ''import'') args)"
  by simp

lemma swcVisit_string:
  assumes "e = SCallExpression (SIdentifier ''import'') (SStringLiteral v # rest)
         \<or> e = SCallExpression (SMemberExpression
                  (SCallExpression (SIdentifier ''import'') (SStringLiteral v # rest)) memberProp) args'"
  shows "swcVisit a p e
     = Inr [\<lparr>isDynamic = True, specifier = Some v, cookedQuasis = None,
             expressionNameHints = None, path = p, package = pack a,
             treeType = ownTreeType a\<rparr>]"
  using assms by (auto simp: literalImport_def)

lemma swcVisit_plain_template:
  assumes "e = SCallExpression (SIdentifier ''import'') (STemplateLiteral quasis expressions # rest)
         \<or> e = SCallExpression (SMemberExpression
                  (SCallExpression (SIdentifier ''import'')
                     (STemplateLiteral quasis expressions # rest)) memberProp) args'"
      and "length quasis = length expressions + 1" and "expressions = []"
  shows "swcVisit a p e
     = Inr [\<lparr>isDynamic = True, specifier = Some (cooked (quasis ! 0)), cookedQuasis = None,
             expressionNameHints = None, path = p, package = pack a,
             treeType = ownTreeType a\<rparr>]"
  using assms by (auto simp: literalImport_def)

lemma swcVisit_template:
  assumes "e = SCallExpression (SIdentifier ''import'') (STemplateLiteral quasis expressions # rest)
         \<or> e = SCallExpression (SMemberExpression
                  (SCallExpression (SIdentifier ''import'')
                     (STemplateLiteral quasis expressions # rest)) memberProp) args'"
      and "length quasis = length expressions + 1" and "expressions \<noteq> []"
  shows "swcVisit a p e
     = Inr [\<lparr>isDynamic = True, specifier = None, cookedQuasis = Some (map cooked quasis),
             expressionNameHints =
               Some (map (\<lambda>e. case e of SIdentifier n \<Rightarrow> Some n | _ \<Rightarrow> None) expressions),
             path = p, package = pack a, treeType = ownTreeType a\<rparr>]"
proof -
  have "swcInferNameHint = (\<lambda>e. case e of SIdentifier n \<Rightarrow> Some n | _ \<Rightarrow> None)"
  proof
    fix e show "swcInferNameHint e = (case e of SIdentifier n \<Rightarrow> Some n | _ \<Rightarrow> None)"
      by (cases e) simp_all
  qed
  then show ?thesis using assms by (auto simp: templateImport_def)
qed

text \<open>
  Claim C5 says how the argument of every call-form import decides the record: a string
  literal gives a Literal Import of its value, a template literal with interpolations a
  Template Import of its quasis and name hints. The lemmas above show it for the calls
  that the extractors read. A call of \<^verbatim>\<open>importSync\<close> is read under Babel only: on the file
  \<^verbatim>\<open>import { importSync } from '@embroider/macros'; importSync(`bar-${x}`);\<close>
  the Babel extractor yields the record of the declaration and the Template Import with
  the quasis \<^verbatim>\<open>bar-\<close> and the empty text and the hint \<^verbatim>\<open>x\<close>; the swc extractor yields the
  record of the declaration only, and for \<^verbatim>\<open>importSync('lodash')\<close> it pushes nothing.
\<close>

theorem C5_swc_drops_importSync_argument:
  "parseImports babelAnalyzer ''macro-template.js'' macroTemplateSource
     = Inr [\<lparr>isDynamic = False, specifier = Some ''@embroider/macros'', cookedQuasis = None,
             expressionNameHints = None, path = ''macro-template.js'',
             package = examplePackage, treeType = Some App\<rparr>,
            \<lparr>isDynamic = False, specifier = None, cookedQuasis = Some [''bar-'', []],
             expressionNameHints = Some [Some ''x''], path = ''macro-template.js'',
             package = examplePackage, treeType = Some App\<rparr>]
   \<and> parseImports swcAnalyzer ''macro-template.js'' macroTemplateSource
     = Inr [\<lparr>isDynamic = False, specifier = Some ''@embroider/macros'', cookedQuasis = None,
             expressionNameHints = None, path = ''macro-template.js'',
             package = examplePackage\<lparr>useSwcParser := True\<rparr>, treeType = Some App\<rparr>]
   \<and> babelVisit babelAnalyzer ''macro.js''
        (BCallExpression
           (BIdentifier ''importSync'' (Some (''@embroider/macros'', ''importSync'')))
           [BStringLiteral ''lodash''])
     = Inr [\<lparr>isDynamic = False, specifier = Some ''lodash'', cookedQuasis = None,
             expressionNameHints = None, path = ''macro.js'',
             package = examplePackage, treeType = Some App\<rparr>]
   \<and> swcVisit swcAnalyzer ''macro.js''
        (SCallExpression (SIdentifier ''importSync'') [SStringLiteral ''lodash''])
     = Inr []"
  by (simp add: parseImports_def literalImport_def templateImport_def example_defs)

text \<open>
  An argument that is neither a string literal nor a template literal.
\<close>

lemma processImportCallExpression_other:
  "\<not> babelLiteralShape arg \<Longrightarrow>
     processImportCallExpression a p (arg # rest) d = Inl usageError"
  by (cases arg) simp_all

lemma swcProcessArgument_other:
  "\<not> swcLiteralShape arg \<Longrightarrow> swcProcessArgument a p (Some (arg # rest)) = Inl usageError"
  by (cases arg) simp_all

lemma babelVisit_other:
  assumes "callee = BImport
         \<or> callee = BIdentifier n (Some (''@embroider/macros'', ''importSync''))"
      and "\<not> babelLiteralShape arg"
  shows "babelVisit a p (BCallExpression callee (arg # rest)) = Inl usageError"
  using assms by (auto simp: processImportCallExpression_other)

lemma swcVisit_other:
  assumes "e = SCallExpression (SIdentifier ''import'') (arg # rest)
         \<or> e = SCallExpression (SMemberExpression
                  (SCallExpression (SIdentifier ''import'') (arg # rest)) memberProp) args'"
      and "\<not> swcLiteralShape arg"
  shows "swcVisit a p e = Inl usageError"
  using assms by (auto simp: swcProcessArgument_other)

lemma babelLiteralShape_iff:
  "babelLiteralShape arg
     = (\<not> ((\<forall>v. arg \<noteq> BStringLiteral v) \<and> (\<forall>q es. arg \<noteq> BTemplateLiteral q es)))"
  by (cases arg) simp_all

lemma swcLiteralShape_iff:
  "swcLiteralShape arg
     = (\<not> ((\<forall>v. arg \<noteq> SStringLiteral v) \<and> (\<forall>q es. arg \<noteq> STemplateLiteral q es)))"
  by (cases arg) simp_all

lemma parse_callArg_babel:
  "parseImports babelAnalyzer ''call.js'' callArgSource = Inl usageError"
  by (simp add: parseImports_def example_defs)

lemma parse_callArg_swc:
  "parseImports swcAnalyzer ''call.js'' callArgSource = Inl usageError"
  by (simp add: parseImports_def example_defs)

text \<open>
  Claim C6 says that a call-form import with an argument that is neither a string literal
  nor a template literal fails with the usage error
  \<^verbatim>\<open>import() only accepts string or template-string literals\<close>. On
  \<^verbatim>\<open>import(someFn())\<close> both extractors throw, with another message.
\<close>

theorem C6_message_differs:
  "parseImports babelAnalyzer ''call.js'' callArgSource = Inl usageError
   \<and> parseImports swcAnalyzer ''call.js'' callArgSource = Inl usageError
   \<and> err_message usageError
       = ''import() is only allowed to contain string literals or template string literals''
   \<and> err_message usageError \<noteq> ''import() only accepts string or template-string literals''"
  by (simp add: parse_callArg_babel parse_callArg_swc usageError_def)

text \<open>
  Claim C6 as amended: for a call that the extractor reads as an import (under Babel
  \<^verbatim>\<open>import(...)\<close> and \<^verbatim>\<open>importSync(...)\<close>, under swc \<^verbatim>\<open>import(...)\<close> and a method call on
  it) and whose first argument is neither a string literal nor a template literal, the
  visitor throws the error named Error with the message
  \<^verbatim>\<open>import() is only allowed to contain string literals or template string literals\<close>;
  when the nodes before it are extracted without a throw, \<open>parseImports\<close> throws it;
  \<open>updateImports\<close> then throws it and leaves the analyzer as it was, so that the entry of
  the path keeps its value, and the build ends with it.
\<close>

theorem C6_unsupported_argument:
  "((\<forall>v. arg \<noteq> BStringLiteral v) \<and> (\<forall>q es. arg \<noteq> BTemplateLiteral q es) \<longrightarrow>
      processImportCallExpression a p (arg # rest) d = Inl usageError)
   \<and> ((callee = BImport
         \<or> callee = BIdentifier n (Some (''@embroider/macros'', ''importSync'')))
        \<and> (\<forall>v. arg \<noteq> BStringLiteral v) \<and> (\<forall>q es. arg \<noteq> BTemplateLiteral q es) \<longrightarrow>
          babelVisit a p (BCallExpression callee (arg # rest)) = Inl usageError)
   \<and> ((e = SCallExpression (SIdentifier ''import'') (sarg # srest)
         \<or> e = SCallExpression (SMemberExpression
                  (SCallExpression (SIdentifier ''import'') (sarg # srest)) memberProp) margs)
        \<and> (\<forall>v. sarg \<noteq> SStringLiteral v) \<and> (\<forall>q es. sarg \<noteq> STemplateLiteral q es) \<longrightarrow>
          swcVisit a p e = Inl usageError)
   \<and> (parse a = Some parseFn \<and> \<not> useSwcParser (pack a)
        \<and> parseFn source = Inr (File (pre @ BCallExpression callee (arg # rest) # post))
        \<and> (callee = BImport
            \<or> callee = BIdentifier n (Some (''@embroider/macros'', ''importSync'')))
        \<and> (\<forall>v. arg \<noteq> BStringLiteral v) \<and> (\<forall>q es. arg \<noteq> BTemplateLiteral q es)
        \<and> visitAll (babelVisit a p) pre [] = Inr found \<longrightarrow>
          parseImports a p source = Inl usageError)
   \<and> (parse a = Some parseFn \<and> useSwcParser (pack a)
        \<and> parseFn source = Inr (Program (spre @ e # spost))
        \<and> (e = SCallExpression (SIdentifier ''import'') (sarg # srest)
            \<or> e = SCallExpression (SMemberExpression
                     (SCallExpression (SIdentifier ''import'') (sarg # srest)) memberProp) margs)
        \<and> (\<forall>v. sarg \<noteq> SStringLiteral v) \<and> (\<forall>q es. sarg \<noteq> STemplateLiteral q es)
        \<and> visitAll (swcVisit a p) spre [] = Inr found \<longrightarrow>
          parseImports a p source = Inl usageError)
   \<and> (parseImports a p source = Inl usageError \<longrightarrow>
        updateImports a p source = (Some usageError, a)
      \<and> (matchesExtension l a p \<and> readFileSync l p = source \<longrightarrow>
           applyPatch l a ((Create, p) # patch) = (Some usageError, a)
         \<and> applyPatch l a ((Change, p) # patch) = (Some usageError, a)))
   \<and> usageError
       = JsError ''Error''
           ''import() is only allowed to contain string literals or template string literals''"
proof (intro conjI impI)
  assume "(\<forall>v. arg \<noteq> BStringLiteral v) \<and> (\<forall>q es. arg \<noteq> BTemplateLiteral q es)"
  then show "processImportCallExpression a p (arg # rest) d = Inl usageError"
    by (simp add: processImportCallExpression_other babelLiteralShape_iff)
next
  assume "(callee = BImport
         \<or> callee = BIdentifier n (Some (''@embroider/macros'', ''importSync'')))
        \<and> (\<forall>v. arg \<noteq> BStringLiteral v) \<and> (\<forall>q es. arg \<noteq> BTemplateLiteral q es)"
  then show "babelVisit a p (BCallExpression callee (arg # rest)) = Inl usageError"
    using babelVisit_other [of callee n arg a p rest] by (simp add: babelLiteralShape_iff)
next
  assume "(e = SCallExpression (SIdentifier ''import'') (sarg # srest)
         \<or> e = SCallExpression (SMemberExpression
                  (SCallExpression (SIdentifier ''import'') (sarg # srest)) memberProp) margs)
        \<and> (\<forall>v. sarg \<noteq> SStringLiteral v) \<and> (\<forall>q es. sarg \<noteq> STemplateLiteral q es)"
  then show "swcVisit a p e = Inl usageError"
    using swcVisit_other [of e sarg srest memberProp margs a p]
    by (simp add: swcLiteralShape_iff)
next
  assume h: "parse a = Some parseFn \<and> \<not> useSwcParser (pack a)
        \<and> parseFn source = Inr (File (pre @ BCallExpression callee (arg # rest) # post))
        \<and> (callee = BImport
            \<or> callee = BIdentifier n (Some (''@embroider/macros'', ''importSync'')))
        \<and> (\<forall>v. arg \<noteq> BStringLiteral v) \<and> (\<forall>q es. arg \<noteq> BTemplateLiteral q es)
        \<and> visitAll (babelVisit a p) pre [] = Inr found"
  then have "babelVisit a p (BCallExpression callee (arg # rest)) = Inl usageError"
    using babelVisit_other [of callee n arg a p rest] by (simp add: babelLiteralShape_iff)
  moreover have "visitAll (babelVisit a p) pre [] = Inr found"
    using h by simp
  ultimately have "visitAll (babelVisit a p) (pre @ BCallExpression callee (arg # rest) # post) []
               = Inl usageError"
    by (simp add: visitAll_throws)
  then show "parseImports a p source = Inl usageError"
    using h parseImports_babel [of a parseFn source _ p] by simp
next
  assume h: "parse a = Some parseFn \<and> useSwcParser (pack a)
        \<and> parseFn source = Inr (Program (spre @ e # spost))
        \<and> (e = SCallExpression (SIdentifier ''import'') (sarg # srest)
            \<or> e = SCallExpression (SMemberExpression
                     (SCallExpression (SIdentifier ''import'') (sarg # srest)) memberProp) margs)
        \<and> (\<forall>v. sarg \<noteq> SStringLiteral v) \<and> (\<forall>q es. sarg \<noteq> STemplateLiteral q es)
        \<and> visitAll (swcVisit a p) spre [] = Inr found"
  then have "swcVisit a p e = Inl usageError"
    using swcVisit_other [of e sarg srest memberProp margs a p]
    by (simp add: swcLiteralShape_iff)
  moreover have "visitAll (swcVisit a p) spre [] = Inr found"
    using h by simp
  ultimately have "visitAll (swcVisit a p) (spre @ e # spost) [] = Inl usageError"
    by (simp add: visitAll_throws)
  then show "parseImports a p source = Inl usageError"
    using h parseImports_swc [of a parseFn source _ p] by simp
next
  assume e: "parseImports a p source = Inl usageError"
  then show u: "updateImports a p source = (Some usageError, a)"
    by (rule updateImports_error)
  assume m: "matchesExtension l a p \<and> readFileSync l p = source"
  show "applyPatch l a ((Create, p) # patch) = (Some usageError, a)"
    using u m by simp
  show "applyPatch l a ((Change, p) # patch) = (Some usageError, a)"
    using u m by simp
next
  show "usageError
       = JsError ''Error''
           ''import() is only allowed to contain string literals or template string literals''"
    by (simp add: usageError_def)
qed

theorem C6_unsupported_argument_witness:
  "parse babelAnalyzer = Some (babel7Parser exampleLibs)
   \<and> \<not> useSwcParser (pack babelAnalyzer)
   \<and> babel7Parser exampleLibs callArgSource
       = Inr (File ([] @ BCallExpression BImport
                           (BCallExpression (BIdentifier ''someFn'' None) [] # [])
                       # [BCallExpression (BIdentifier ''someFn'' None) []]))
   \<and> visitAll (babelVisit babelAnalyzer ''call.js'') [] [] = Inr []
   \<and> parse swcAnalyzer = Some (swcParser exampleLibs)
   \<and> useSwcParser (pack swcAnalyzer)
   \<and> swcParser exampleLibs callArgSource
       = Inr (Program ([] @ SCallExpression (SIdentifier ''import'')
                              (SCallExpression (SIdentifier ''someFn'') [] # []) # []))
   \<and> swcParser exampleLibs thenSource
       = Inr (Program ([] @ SCallExpression
                              (SMemberExpression
                                 (SCallExpression (SIdentifier ''import'')
                                    (SCallExpression (SIdentifier ''someFn'') [] # []))
                                 (SIdentifier ''then''))
                              [] # []))
   \<and> visitAll (swcVisit swcAnalyzer ''call.js'') [] [] = Inr []
   \<and> visitAll (swcVisit swcAnalyzer ''then.js'') [] [] = Inr []
   \<and> matchesExtension exampleLibs babelAnalyzer ''call.js''
   \<and> readFileSync exampleLibs ''call.js'' = callArgSource
   \<and> matchesExtension exampleLibs swcAnalyzer ''then.js''
   \<and> readFileSync exampleLibs ''then.js'' = thenSource
   \<and> processImportCallExpression babelAnalyzer ''call.js''
        [BCallExpression (BIdentifier ''someFn'' None) []] True = Inl usageError
   \<and> babelVisit babelAnalyzer ''call.js''
        (BCallExpression BImport [BCallExpression (BIdentifier ''someFn'' None) []])
       = Inl usageError
   \<and> swcVisit swcAnalyzer ''call.js''
        (SCallExpression (SIdentifier ''import'') [SCallExpression (SIdentifier ''someFn'') []])
       = Inl usageError
   \<and> swcVisit swcAnalyzer ''then.js''
        (SCallExpression
           (SMemberExpression
              (SCallExpression (SIdentifier ''import'')
                 [SCallExpression (SIdentifier ''someFn'') []])
              (SIdentifier ''then''))
           [])
       = Inl usageError
   \<and> parseImports babelAnalyzer ''call.js'' callArgSource = Inl usageError
   \<and> parseImports swcAnalyzer ''call.js'' callArgSource = Inl usageError
   \<and> parseImports swcAnalyzer ''then.js'' thenSource = Inl usageError
   \<and> updateImports babelAnalyzer ''call.js'' callArgSource = (Some usageError, babelAnalyzer)
   \<and> updateImports swcAnalyzer ''call.js'' callArgSource = (Some usageError, swcAnalyzer)
   \<and> updateImports swcAnalyzer ''then.js'' thenSource = (Some usageError, swcAnalyzer)
   \<and> applyPatch exampleLibs babelAnalyzer [(Create, ''call.js''), (Create, ''macro.js'')]
       = (Some usageError, babelAnalyzer)
   \<and> applyPatch exampleLibs swcAnalyzer [(Change, ''then.js''), (Create, ''macro.js'')]
       = (Some usageError, swcAnalyzer)"
proof -
  have pb: "parse babelAnalyzer = Some (babel7Parser exampleLibs)"
    by (simp add: example_defs)
  have ub: "\<not> useSwcParser (pack babelAnalyzer)"
    by (simp add: example_defs)
  have tb: "babel7Parser exampleLibs callArgSource
       = Inr (File ([] @ BCallExpression BImport
                           (BCallExpression (BIdentifier ''someFn'' None) [] # [])
                       # [BCallExpression (BIdentifier ''someFn'' None) []]))"
    by (simp add: example_defs)
  have ps: "parse swcAnalyzer = Some (swcParser exampleLibs)"
    by (simp add: example_defs)
  have us: "useSwcParser (pack swcAnalyzer)"
    by (simp add: example_defs)
  have ts: "swcParser exampleLibs callArgSource
       = Inr (Program ([] @ SCallExpression (SIdentifier ''import'')
                              (SCallExpression (SIdentifier ''someFn'') [] # []) # []))"
    by (simp add: example_defs)
  have tt: "swcParser exampleLibs thenSource
       = Inr (Program ([] @ SCallExpression
                              (SMemberExpression
                                 (SCallExpression (SIdentifier ''import'')
                                    (SCallExpression (SIdentifier ''someFn'') [] # []))
                                 (SIdentifier ''then''))
                              [] # []))"
    by (simp add: example_defs)
  have mb: "matchesExtension exampleLibs babelAnalyzer ''call.js''"
    by (simp add: matchesExtension_def example_defs)
  have rb: "readFileSync exampleLibs ''call.js'' = callArgSource"
    by (simp add: example_defs)
  have ms: "matchesExtension exampleLibs swcAnalyzer ''then.js''"
    by (simp add: matchesExtension_def example_defs)
  have rs: "readFileSync exampleLibs ''then.js'' = thenSource"
    by (simp add: example_defs)
  note b = C6_unsupported_argument [where a = babelAnalyzer and p = "''call.js''"
      and arg = "BCallExpression (BIdentifier ''someFn'' None) []" and rest = "[]" and d = True
      and parseFn = "babel7Parser exampleLibs" and source = callArgSource and pre = "[]"
      and callee = BImport and post = "[BCallExpression (BIdentifier ''someFn'' None) []]"
      and found = "[]" and l = exampleLibs and patch = "[(Create, ''macro.js'')]"]
  note s = C6_unsupported_argument [where a = swcAnalyzer and p = "''call.js''"
      and sarg = "SCallExpression (SIdentifier ''someFn'') []" and srest = "[]"
      and e = "SCallExpression (SIdentifier ''import'')
                 [SCallExpression (SIdentifier ''someFn'') []]"
      and parseFn = "swcParser exampleLibs" and source = callArgSource and spre = "[]"
      and spost = "[]" and found = "[]"]
  note t = C6_unsupported_argument [where a = swcAnalyzer and p = "''then.js''"
      and sarg = "SCallExpression (SIdentifier ''someFn'') []" and srest = "[]"
      and e = "SCallExpression
                 (SMemberExpression
                    (SCallExpression (SIdentifier ''import'')
                       [SCallExpression (SIdentifier ''someFn'') []])
                    (SIdentifier ''then''))
                 []"
      and memberProp = "SIdentifier ''then''" and margs = "[]"
      and parseFn = "swcParser exampleLibs" and source = thenSource and spre = "[]"
      and spost = "[]" and found = "[]" and l = exampleLibs
      and patch = "[(Create, ''macro.js'')]"]
  show ?thesis
    using b s t pb ub tb ps us ts tt mb rb ms rs by simp
qed
subsection \<open>Declarations\<close>

text \<open>
  Under Babel an import declaration pushes exactly one non-dynamic Literal Import of its
  source, a named re-export with a source the same record, and one without a source
  nothing. Under swc an import declaration pushes the same record.
\<close>

lemma babelVisit_ImportDeclaration:
  "babelVisit a p (BImportDeclaration s)
     = Inr [\<lparr>isDynamic = False, specifier = Some s, cookedQuasis = None,
             expressionNameHints = None, path = p, package = pack a,
             treeType = ownTreeType a\<rparr>]"
  by (simp add: literalImport_def)

lemma babelVisit_ExportNamedDeclaration:
  "babelVisit a p (BExportNamedDeclaration (Some s))
     = Inr [\<lparr>isDynamic = False, specifier = Some s, cookedQuasis = None,
             expressionNameHints = None, path = p, package = pack a,
             treeType = ownTreeType a\<rparr>]"
  and "babelVisit a p (BExportNamedDeclaration None) = Inr []"
  by (simp_all add: literalImport_def)

lemma swcVisit_ImportDeclaration:
  "swcVisit a p (SImportDeclaration s)
     = Inr [\<lparr>isDynamic = False, specifier = Some s, cookedQuasis = None,
             expressionNameHints = None, path = p, package = pack a,
             treeType = ownTreeType a\<rparr>]"
  by (simp add: literalImport_def)

text \<open>
  In the list that \<open>parseImports\<close> returns for a file, the records of a node stand between
  those of the nodes before it and those of the nodes after it.
\<close>

lemma parseImports_babel_split:
  assumes "parse a = Some parseFn" and "\<not> useSwcParser (pack a)"
      and "parseFn source = Inr (File (pre @ n # post))"
      and "parseImports a p source = Inr found"
  shows "\<exists>before pushed after.
           visitAll (babelVisit a p) pre [] = Inr before
         \<and> babelVisit a p n = Inr pushed
         \<and> visitAll (babelVisit a p) post [] = Inr after
         \<and> found = before @ pushed @ after"
proof -
  have "visitAll (babelVisit a p) (pre @ n # post) [] = Inr found"
    using assms parseImports_babel [of a parseFn source "pre @ n # post" p] by simp
  then show ?thesis by (rule visitAll_split)
qed

lemma parseImports_swc_split:
  assumes "parse a = Some parseFn" and "useSwcParser (pack a)"
      and "parseFn source = Inr (Program (pre @ n # post))"
      and "parseImports a p source = Inr found"
  shows "\<exists>before pushed after.
           visitAll (swcVisit a p) pre [] = Inr before
         \<and> swcVisit a p n = Inr pushed
         \<and> visitAll (swcVisit a p) post [] = Inr after
         \<and> found = before @ pushed @ after"
proof -
  have "visitAll (swcVisit a p) (pre @ n # post) [] = Inr found"
    using assms parseImports_swc [of a parseFn source "pre @ n # post" p] by simp
  then show ?thesis by (rule visitAll_split)
qed

text \<open>
  Under swc no named re-export pushes a record, with a source or without: the method
  \<^verbatim>\<open>visitExportNamedDeclaration\<close>, which would push it, is not the one the library calls.
\<close>

lemma swcVisit_ExportNamedDeclaration:
  "swcVisit a p (SExportNamedDeclaration source) = Inr []"
  by simp

lemma visitExportNamedDeclaration_source:
  "visitExportNamedDeclaration a p (Some s)
     = Inr [\<lparr>isDynamic = False, specifier = Some s, cookedQuasis = None,
             expressionNameHints = None, path = p, package = pack a,
             treeType = ownTreeType a\<rparr>]"
  by (simp add: literalImport_def)

text \<open>
  Claim C7 says that, for every file, an import declaration yields exactly one
  non-dynamic Literal Import of its source, and a named re-export the same record exactly
  when it has a source. On the file
  \<^verbatim>\<open>import Foo from 'bar'; export { a } from 'pkg'; const b = 1; export { b };\<close>
  the Babel extractor yields the records of \<^verbatim>\<open>bar\<close> and of \<^verbatim>\<open>pkg\<close>; the swc extractor
  yields the record of \<^verbatim>\<open>bar\<close> only, although the method \<^verbatim>\<open>visitExportNamedDeclaration\<close>
  of its visitor would push the record of \<^verbatim>\<open>pkg\<close>.
\<close>

theorem C7_swc_drops_reexport:
  "parseImports babelAnalyzer ''reexport.js'' reexportSource
     = Inr [\<lparr>isDynamic = False, specifier = Some ''bar'', cookedQuasis = None,
             expressionNameHints = None, path = ''reexport.js'',
             package = examplePackage, treeType = Some App\<rparr>,
            \<lparr>isDynamic = False, specifier = Some ''pkg'', cookedQuasis = None,
             expressionNameHints = None, path = ''reexport.js'',
             package = examplePackage, treeType = Some App\<rparr>]
   \<and> parseImports swcAnalyzer ''reexport.js'' reexportSource
     = Inr [\<lparr>isDynamic = False, specifier = Some ''bar'', cookedQuasis = None,
             expressionNameHints = None, path = ''reexport.js'',
             package = examplePackage\<lparr>useSwcParser := True\<rparr>, treeType = Some App\<rparr>]
   \<and> swcVisit swcAnalyzer ''reexport.js'' (SExportNamedDeclaration (Some ''pkg'')) = Inr []
   \<and> visitExportNamedDeclaration swcAnalyzer ''reexport.js'' (Some ''pkg'')
     = Inr [\<lparr>isDynamic = False, specifier = Some ''pkg'', cookedQuasis = None,
             expressionNameHints = None, path = ''reexport.js'',
             package = examplePackage\<lparr>useSwcParser := True\<rparr>, treeType = Some App\<rparr>]"
  by (simp add: parseImports_def literalImport_def example_defs)

subsection \<open>The shape of the records\<close>

lemma literalImport_invariant: "importInvariant (literalImport a p d s)"
  by (simp add: importInvariant_def literalImport_def)

lemma templateImport_invariant:
  "length quasis = length hints + 1 \<Longrightarrow> importInvariant (templateImport a p d quasis hints)"
  by (simp add: importInvariant_def templateImport_def)

lemma processImportCallExpression_invariant:
  assumes "list_all babelWellFormed args" and "processImportCallExpression a p args d = Inr i"
  shows "importInvariant i"
  using assms
  by (induction a p args d rule: processImportCallExpression.induct)
     (auto simp: literalImport_invariant templateImport_invariant split: if_splits)

lemma babelVisit_invariant:
  assumes "babelWellFormed n" and "babelVisit a p n = Inr pushed" and "i \<in> set pushed"
  shows "importInvariant i"
proof (cases n)
  case (BCallExpression callee args)
  then have wf: "list_all babelWellFormed args" using assms(1) by simp
  show ?thesis
    using assms(2,3) BCallExpression processImportCallExpression_invariant [OF wf]
    by (auto split: if_splits simp: map_sum_def split: sum.splits)
next
  case (BExportNamedDeclaration source)
  then show ?thesis
    using assms(2,3) by (auto simp: literalImport_invariant split: option.splits)
qed (use assms in \<open>auto simp: literalImport_invariant\<close>)

lemma swcProcessArgument_invariant:
  assumes "list_all swcWellFormed args" and "swcProcessArgument a p (Some args) = Inr pushed"
      and "i \<in> set pushed"
  shows "importInvariant i"
  using assms
  by (induction a p "Some args" rule: swcProcessArgument.induct)
     (auto simp: literalImport_invariant templateImport_invariant split: if_splits)

lemma swcImportCall_wellFormed:
  assumes "swcWellFormed n" and "swcImportCall n = Some c" and "swcArguments c = Some args"
  shows "list_all swcWellFormed args"
  using assms
  by (induction n rule: swcImportCall.induct)
     (auto split: if_splits option.splits elim: swcArguments.elims)

lemma swcVisit_invariant:
  assumes "swcWellFormed n" and "swcVisit a p n = Inr pushed" and "i \<in> set pushed"
  shows "importInvariant i"
proof (cases n)
  case (SCallExpression callee args)
  show ?thesis
  proof (cases "swcImportCall n")
    case None
    then show ?thesis using assms(2,3) SCallExpression by simp
  next
    case (Some c)
    then have v: "swcProcessArgument a p (swcArguments c) = Inr pushed"
      using assms(2) SCallExpression by simp
    then obtain cargs where ca: "swcArguments c = Some cargs"
      by (cases "swcArguments c") simp_all
    have "list_all swcWellFormed cargs"
      using swcImportCall_wellFormed [OF assms(1) Some ca] .
    then show ?thesis
      using swcProcessArgument_invariant v ca assms(3) by metis
  qed
qed (use assms in \<open>auto simp: literalImport_invariant\<close>)

lemma parse_template_babel:
  "parseImports babelAnalyzer ''template.js'' templateSource
     = Inr [templateImport babelAnalyzer ''template.js'' True [''bar-'', []] [Some ''x'']]"
  by (simp add: parseImports_def example_defs)

text \<open>
  Claim C9: every record that \<open>parseImports\<close> returns, under either backend, for a tree
  whose template literals have one more quasi than expressions, is of exactly one
  variant: it has \<open>specifier\<close> and neither \<open>cookedQuasis\<close> nor \<open>expressionNameHints\<close>, or
  it has no \<open>specifier\<close> and has both of them, with one more quasi than hints.
\<close>

theorem C9_record_invariant:
  assumes "parse a = Some parseFn" and "parseFn source = Inr tree" and "astWellFormed tree"
      and "parseImports a p source = Inr found" and "i \<in> set found"
  shows "(specifier i \<noteq> None \<and> cookedQuasis i = None \<and> expressionNameHints i = None)
       \<or> (specifier i = None
          \<and> (\<exists>quasis hints. cookedQuasis i = Some quasis \<and> expressionNameHints i = Some hints
                \<and> length quasis = length hints + 1))"
proof -
  have "importInvariant i"
  proof (cases tree)
    case (File ns)
    then have "visitAll (babelVisit a p) ns [] = Inr found"
      using assms(1,2,4) by (auto simp: parseImports_def split: if_splits)
    then obtain n pushed where "n \<in> set ns" "babelVisit a p n = Inr pushed" "i \<in> set pushed"
      using visitAll_member [OF _ assms(5)] by fastforce
    moreover have "babelWellFormed n"
      using assms(3) File \<open>n \<in> set ns\<close> by (simp add: list_all_iff)
    ultimately show ?thesis using babelVisit_invariant by blast
  next
    case (Program ns)
    then have "visitAll (swcVisit a p) ns [] = Inr found"
      using assms(1,2,4) by (auto simp: parseImports_def split: if_splits)
    then obtain n pushed where "n \<in> set ns" "swcVisit a p n = Inr pushed" "i \<in> set pushed"
      using visitAll_member [OF _ assms(5)] by fastforce
    moreover have "swcWellFormed n"
      using assms(3) Program \<open>n \<in> set ns\<close> by (simp add: list_all_iff)
    ultimately show ?thesis using swcVisit_invariant by blast
  qed
  then show ?thesis
    by (auto simp: importInvariant_def split: option.splits)
qed

theorem C9_record_invariant_witness:
  "parse babelAnalyzer = Some (babel7Parser exampleLibs)
   \<and> babel7Parser exampleLibs templateSource
       = Inr (File [BCallExpression BImport
                [BTemplateLiteral [TemplateElement ''bar-'', TemplateElement []]
                   [BIdentifier ''x'' None]]])
   \<and> astWellFormed (File [BCallExpression BImport
                [BTemplateLiteral [TemplateElement ''bar-'', TemplateElement []]
                   [BIdentifier ''x'' None]]])
   \<and> parseImports babelAnalyzer ''template.js'' templateSource
       = Inr [templateImport babelAnalyzer ''template.js'' True [''bar-'', []] [Some ''x'']]
   \<and> specifier (templateImport babelAnalyzer ''template.js'' True [''bar-'', []] [Some ''x''])
       = None
   \<and> cookedQuasis (templateImport babelAnalyzer ''template.js'' True [''bar-'', []] [Some ''x''])
       = Some [''bar-'', []]
   \<and> expressionNameHints
        (templateImport babelAnalyzer ''template.js'' True [''bar-'', []] [Some ''x''])
       = Some [Some ''x'']
   \<and> length [''bar-'', []] = length [Some ''x''] + 1"
proof -
  have p: "parse babelAnalyzer = Some (babel7Parser exampleLibs)"
    by (simp add: example_defs)
  have t: "babel7Parser exampleLibs templateSource
       = Inr (File [BCallExpression BImport
                [BTemplateLiteral [TemplateElement ''bar-'', TemplateElement []]
                   [BIdentifier ''x'' None]]])"
    by (simp add: example_defs)
  have w: "astWellFormed (File [BCallExpression BImport
                [BTemplateLiteral [TemplateElement ''bar-'', TemplateElement []]
                   [BIdentifier ''x'' None]]])"
    by simp
  have m: "templateImport babelAnalyzer ''template.js'' True [''bar-'', []] [Some ''x'']
             \<in> set [templateImport babelAnalyzer ''template.js'' True [''bar-'', []] [Some ''x'']]"
    by simp
  show ?thesis
    using C9_record_invariant [OF p t w parse_template_babel m] p t w parse_template_babel
    by (simp add: templateImport_def)
qed

end
